theory Spec2Isabelle
  imports Complex_Main
begin

section \<open>The fortune gacha of \<^verbatim>\<open>src/components/FortuneGacha.tsx\<close>\<close>

text \<open>
  The component keeps its animation state in local variables of \<^verbatim>\<open>initApp\<close> and
  changes it from three callbacks: the ticker callback (once per frame), \<^verbatim>\<open>handleTap\<close>
  (pointer input) and \<^verbatim>\<open>handleResize\<close>. The embedding below turns the variables into
  a record and each callback into a function from state to state.

  Conventions of the embedding.
  \<^item> A JavaScript \<^verbatim>\<open>number\<close> is a \<^typ>\<open>real\<close>: infinities and NaN of IEEE doubles are
    outside the model, and so is rounding, with one exception. The progress counter
    \<^verbatim>\<open>chargeProgress\<close> is compared with 1 to change the phase, and whether a sum of
    quotients reaches 1 depends on how each quotient and each sum is rounded; so
    \<^verbatim>\<open>chargeProgress += delta / 90\<close> and \<^verbatim>\<open>chargeProgress += delta / 60\<close> are modelled
    with the rounding of doubles (\<open>roundDouble\<close> below). \<^verbatim>\<open>Math.hypot\<close>, \<^verbatim>\<open>Math.cos\<close>,
    \<^verbatim>\<open>Math.sin\<close>, \<^verbatim>\<open>Math.PI\<close> and \<^verbatim>\<open>Math.floor\<close> are the real functions of the same
    name.
  \<^item> \<^verbatim>\<open>Math.random()\<close> is an input: every callback takes a sequence
    \<open>rnd :: nat \<Rightarrow> real\<close>, whose \<open>k\<close>-th element is what the \<open>k\<close>-th call of
    \<^verbatim>\<open>Math.random()\<close> inside that callback invocation returns. The library promises
    \<open>0 \<le> rnd k < 1\<close>; theorems that need the promise assume it.
  \<^item> An array read \<^verbatim>\<open>a[i]\<close> out of range yields \<^verbatim>\<open>undefined\<close>; both \<^verbatim>\<open>undefined\<close>
    and \<^verbatim>\<open>null\<close> are \<open>None\<close>.
  \<^item> A string is the list of its UTF-16 code units.
  \<^item> Fields are prefixed with the initial of their class (\<open>p_x\<close> for \<^verbatim>\<open>Particle.x\<close>,
    \<open>l_length\<close> for \<^verbatim>\<open>ConcentrationLine.length\<close>, \<open>f_color\<close> for the \<^verbatim>\<open>color\<close> of
    a fortune), since the classes share field names with each other and with the list
    library.
  \<^item> The contents of the \<^verbatim>\<open>Graphics\<close> objects are write-only output (no callback
    reads them back) and are not part of the state. Each \<^verbatim>\<open>gsap.to\<close> call is recorded
    as a request in the field \<open>tweens\<close>; the interpolation that the tween library
    performs afterwards is outside the model.
\<close>

subsection \<open>Fortunes\<close>

type_synonym jsstring = "nat list"

record Fortune =
  f_rank :: jsstring
  f_color :: nat
  f_message :: jsstring

definition FORTUNES :: "Fortune list" where
  "FORTUNES =
    [\<lparr>f_rank = [0x5927, 0x5409], f_color = 0xffd700,
      f_message = [0x6700, 0x9AD8, 0x306E, 0x904B, 0x52E2, 0xFF01, 0x7D20, 0x6674, 0x3089,
        0x3057, 0x3044, 0x4E00, 0x65E5, 0x306B, 0x306A, 0x308B, 0x3067, 0x3057, 0x3087, 0x3046]\<rparr>,
     \<lparr>f_rank = [0x4E2D, 0x5409], f_color = 0xff6b9d,
      f_message = [0x826F, 0x3044, 0x904B, 0x52E2, 0x3067, 0x3059, 0x3002, 0x524D, 0x5411,
        0x304D, 0x306B, 0x884C, 0x52D5, 0x3057, 0x307E, 0x3057, 0x3087, 0x3046]\<rparr>,
     \<lparr>f_rank = [0x5C0F, 0x5409], f_color = 0x7dd3fc,
      f_message = [0x307E, 0x305A, 0x307E, 0x305A, 0x306E, 0x904B, 0x52E2, 0x3002, 0x7A4F,
        0x3084, 0x304B, 0x306B, 0x904E, 0x3054, 0x305B, 0x307E, 0x3059]\<rparr>,
     \<lparr>f_rank = [0x5409], f_color = 0x86efac,
      f_message = [0x666E, 0x901A, 0x306E, 0x904B, 0x52E2, 0x3002, 0x5730, 0x9053, 0x306A,
        0x52AA, 0x529B, 0x304C, 0x5B9F, 0x3092, 0x7D50, 0x3073, 0x307E, 0x3059]\<rparr>,
     \<lparr>f_rank = [0x672B, 0x5409], f_color = 0xc4b5fd,
      f_message = [0x63A7, 0x3048, 0x3081, 0x306A, 0x904B, 0x52E2, 0x3002, 0x614E, 0x91CD,
        0x306B, 0x884C, 0x52D5, 0x3057, 0x307E, 0x3057, 0x3087, 0x3046]\<rparr>,
     \<lparr>f_rank = [0x51F6], f_color = 0x94a3b8,
      f_message = [0x4ECA, 0x65E5, 0x306F, 0x614E, 0x91CD, 0x306B, 0x3002, 0x660E, 0x65E5,
        0x306F, 0x304D, 0x3063, 0x3068, 0x826F, 0x3044, 0x65E5, 0x306B]\<rparr>]"

text \<open>\<^verbatim>\<open>a[i]\<close> for an integral index \<open>i\<close>.\<close>

definition js_index :: "'a list \<Rightarrow> int \<Rightarrow> 'a option" where
  "js_index a i = (if 0 \<le> i \<and> i < int (length a) then Some (a ! nat i) else None)"

subsection \<open>Rounding to a double\<close>

text \<open>
  An arithmetic operation on doubles returns the exact result rounded to the nearest
  double, ties going to the even significand (IEEE 754 binary64, round to nearest even).
  \<open>expOf n x\<close> is the binary exponent of a positive \<open>x\<close> (the \<open>e\<close> with
  \<open>2 ^ e \<le> x < 2 ^ (e + 1)\<close>), found by at most \<open>n\<close> doublings or halvings; 1100 of
  them reach every double. A double has 53 significant bits, so around \<open>x\<close> the doubles
  are the multiples of \<open>2 ^ (e - 52)\<close>; below \<open>2 ^ (- 1022)\<close> (the subnormal numbers) they
  are the multiples of \<open>2 ^ (- 1074)\<close>. A result of \<open>2 ^ 1024\<close> or more is \<^verbatim>\<open>Infinity\<close> for
  the code and is outside the model.
\<close>

fun expOf :: "nat \<Rightarrow> real \<Rightarrow> int" where
  "expOf n x =
    (if n = 0 then 0
     else if x < 1 then expOf (n - 1) (x * 2) - 1
     else if 2 \<le> x then expOf (n - 1) (x / 2) + 1
     else 0)"

declare expOf.simps [simp del]

definition roundHalfEven :: "real \<Rightarrow> int" where
  "roundHalfEven x =
    (if x - of_int \<lfloor>x\<rfloor> < 1 / 2 then \<lfloor>x\<rfloor>
     else if 1 / 2 < x - of_int \<lfloor>x\<rfloor> then \<lfloor>x\<rfloor> + 1
     else if even \<lfloor>x\<rfloor> then \<lfloor>x\<rfloor> else \<lfloor>x\<rfloor> + 1)"

definition pow2 :: "int \<Rightarrow> real" where
  "pow2 e = (if 0 \<le> e then 2 ^ nat e else 1 / 2 ^ nat (- e))"

definition roundDouble :: "real \<Rightarrow> real" where
  "roundDouble x =
    (if x = 0 then 0
     else let e = max (expOf 1100 \<bar>x\<bar>) (- 1022) - 52
          in sgn x * of_int (roundHalfEven (\<bar>x\<bar> / pow2 e)) * pow2 e)"

text \<open>
  \<^verbatim>\<open>chargeProgress += delta / ticks\<close> on doubles: the quotient is rounded, then the sum.
\<close>

definition addProgress :: "real \<Rightarrow> real \<Rightarrow> real \<Rightarrow> real" where
  "addProgress c delta ticks = roundDouble (c + roundDouble (delta / ticks))"

subsection \<open>Particle\<close>

text \<open>
  \<open>p_color\<close> is optional because the explosion loop stores \<^verbatim>\<open>colors[...]\<close>, an array
  read, into it.
\<close>

record Particle =
  p_x :: real
  p_y :: real
  p_vx :: real
  p_vy :: real
  p_life :: real
  p_maxLife :: real
  p_size :: real
  p_color :: "nat option"
  p_gravity :: real
  p_friction :: real

text \<open>
  The constructor calls \<^verbatim>\<open>Math.random()\<close> four times (angle, speed, maxLife, size);
  \<open>k\<close> is the index of the first of them.
\<close>

definition newParticle :: "(nat \<Rightarrow> real) \<Rightarrow> nat \<Rightarrow> real \<Rightarrow> real \<Rightarrow> nat option \<Rightarrow> Particle" where
  "newParticle rnd k x y c =
    (let angle = rnd k * pi * 2;
         speed = rnd (k + 1) * 15 + 5
     in \<lparr>p_x = x, p_y = y,
         p_vx = cos angle * speed, p_vy = sin angle * speed,
         p_life = 1, p_maxLife = rnd (k + 2) * 2 + 1, p_size = rnd (k + 3) * 4 + 2,
         p_color = c, p_gravity = 0.15, p_friction = 0.98\<rparr>)"

text \<open>\<^verbatim>\<open>update\<close> mutates the particle and returns a boolean: here the pair of both.\<close>

definition update :: "real \<Rightarrow> Particle \<Rightarrow> bool \<times> Particle" where
  "update delta p =
    (let p1 = p\<lparr>p_vy := p_vy p + p_gravity p * delta\<rparr>;
         p2 = p1\<lparr>p_vx := p_vx p1 * p_friction p1\<rparr>;
         p3 = p2\<lparr>p_vy := p_vy p2 * p_friction p2\<rparr>;
         p4 = p3\<lparr>p_x := p_x p3 + p_vx p3 * delta\<rparr>;
         p5 = p4\<lparr>p_y := p_y p4 + p_vy p4 * delta\<rparr>;
         p6 = p5\<lparr>p_life := p_life p5 - delta / 60 / p_maxLife p5\<rparr>
     in (p_life p6 > 0, p6))"

subsection \<open>ConcentrationLine\<close>

record ConcentrationLine =
  l_angle :: real
  l_speed :: real
  l_length :: real
  l_width :: real
  l_distance :: real
  l_targetX :: real
  l_targetY :: real

text \<open>The constructor calls \<^verbatim>\<open>Math.random()\<close> five times, from index \<open>k\<close> on.\<close>

definition newConcentrationLine :: "(nat \<Rightarrow> real) \<Rightarrow> nat \<Rightarrow> real \<Rightarrow> real \<Rightarrow> ConcentrationLine" where
  "newConcentrationLine rnd k centerX centerY =
    \<lparr>l_angle = rnd k * pi * 2,
     l_speed = rnd (k + 1) * 8 + 4,
     l_length = rnd (k + 2) * 100 + 50,
     l_width = rnd (k + 3) * 3 + 1,
     l_distance = rnd (k + 4) * 200 + 400,
     l_targetX = centerX,
     l_targetY = centerY\<rparr>"

definition updateLine :: "real \<Rightarrow> ConcentrationLine \<Rightarrow> bool \<times> ConcentrationLine" where
  "updateLine delta l =
    (let l1 = l\<lparr>l_distance := l_distance l - l_speed l * delta\<rparr>
     in (l_distance l1 > 0, l1))"



text \<open>\<^verbatim>\<open>Math.hypot(a, b)\<close>.\<close>

definition hypot :: "real \<Rightarrow> real \<Rightarrow> real" where
  "hypot a b = sqrt (a * a + b * b)"

subsection \<open>The state\<close>

datatype GachaPhase = Idle | Charging | Releasing | Result

text \<open>
  One constructor per shape of \<^verbatim>\<open>gsap.to\<close> call in the source:
  the overlay darkening (start value, end value, duration), the bloom filter
  (bloomScale, brightness, duration, yoyo, repeat), the white flash of the background
  (start value, end value, duration), the card's scale (x, y, duration) and the card's
  rotation (rotation, duration).
\<close>

datatype Tween =
    OverlayTween real real real
  | BloomTween real real real bool nat
  | FlashTween real real real
  | CardScaleTween real real real
  | CardRotationTween real real

text \<open>
  The first seven fields are the \<^verbatim>\<open>let\<close> variables of \<^verbatim>\<open>initApp\<close>. The others are the
  properties of the scene objects that the callbacks assign: \<^verbatim>\<open>app.screen\<close>,
  \<^verbatim>\<open>instructionText\<close>, \<^verbatim>\<open>cardContainer\<close>, \<^verbatim>\<open>rankText\<close>, \<^verbatim>\<open>messageText\<close>,
  \<^verbatim>\<open>gachaLayer\<close>, \<^verbatim>\<open>gachaGraphics\<close> and \<^verbatim>\<open>glowGraphics\<close>.
\<close>

record GachaState =
  phase :: GachaPhase
  particles :: "Particle list"
  concentrationLines :: "ConcentrationLine list"
  energyParticles :: "Particle list"
  idleTime :: real
  chargeProgress :: real
  selectedFortune :: "Fortune option"
  screenWidth :: real
  screenHeight :: real
  instructionVisible :: bool
  instructionAlpha :: real
  instructionPosition :: "real \<times> real"
  cardVisible :: bool
  cardScale :: "real \<times> real"
  cardRotation :: real
  cardPosition :: "real \<times> real"
  rankText :: jsstring
  rankFill :: nat
  rankPosition :: "real \<times> real"
  messageText :: jsstring
  messagePosition :: "real \<times> real"
  gachaLayerScale :: "real \<times> real"
  gachaLayerPosition :: "real \<times> real"
  gachaGraphicsAlpha :: real
  glowGraphicsAlpha :: real
  tweens :: "Tween list"

text \<open>The state when \<^verbatim>\<open>initApp\<close> has run, on a screen of the given size.\<close>

definition initState :: "real \<Rightarrow> real \<Rightarrow> GachaState" where
  "initState w h =
    \<lparr>phase = Idle, particles = [], concentrationLines = [], energyParticles = [],
     idleTime = 0, chargeProgress = 0, selectedFortune = None,
     screenWidth = w, screenHeight = h,
     instructionVisible = True, instructionAlpha = 1, instructionPosition = (0, 0),
     cardVisible = False, cardScale = (1, 1), cardRotation = 0, cardPosition = (0, 0),
     rankText = [], rankFill = 0xffffff, rankPosition = (0, 0),
     messageText = [], messagePosition = (0, 0),
     gachaLayerScale = (1, 1), gachaLayerPosition = (0, 0),
     gachaGraphicsAlpha = 1, glowGraphicsAlpha = 1, tweens = []\<rparr>"

definition getCenterX :: "GachaState \<Rightarrow> real" where
  "getCenterX s = screenWidth s / 2"

definition getCenterY :: "GachaState \<Rightarrow> real" where
  "getCenterY s = screenHeight s / 2"

text \<open>\<^verbatim>\<open>drawCard\<close>, without the drawing into \<^verbatim>\<open>cardBg\<close>.\<close>

definition drawCard :: "Fortune \<Rightarrow> real \<Rightarrow> GachaState \<Rightarrow> GachaState" where
  "drawCard fortune progress s =
    s\<lparr>cardPosition := (getCenterX s, getCenterY s),
      rankText := f_rank fortune,
      rankFill := f_color fortune,
      rankPosition := (0, -80),
      messageText := f_message fortune,
      messagePosition := (0, 20)\<rparr>"

text \<open>
  \<^verbatim>\<open>addEnergyParticle\<close> calls \<^verbatim>\<open>Math.random()\<close> seven times from index \<open>k\<close> on: angle,
  distance, the four calls of the \<^verbatim>\<open>Particle\<close> constructor, speed. Its local
  constant \<^verbatim>\<open>distance\<close>, by which the direction towards the centre is divided, has a
  name of its own here.
\<close>

definition energyDistance :: "(nat \<Rightarrow> real) \<Rightarrow> nat \<Rightarrow> real" where
  "energyDistance rnd k = 300 + rnd (k + 1) * 200"

definition addEnergyParticle :: "(nat \<Rightarrow> real) \<Rightarrow> nat \<Rightarrow> GachaState \<Rightarrow> GachaState" where
  "addEnergyParticle rnd k s =
    (let cx = getCenterX s;
         cy = getCenterY s;
         angle = rnd k * pi * 2;
         distance = energyDistance rnd k;
         x = cx + cos angle * distance;
         y = cy + sin angle * distance;
         particle = newParticle rnd (k + 2) x y (Some 0xa5b4fc);
         speed = rnd (k + 6) * 5 + 3;
         particle = particle\<lparr>p_vx := (cx - x) / distance * speed * 3\<rparr>;
         particle = particle\<lparr>p_vy := (cy - y) / distance * speed * 3\<rparr>;
         particle = particle\<lparr>p_gravity := 0\<rparr>;
         particle = particle\<lparr>p_friction := 1\<rparr>;
         particle = particle\<lparr>p_maxLife := distance / (speed * 60)\<rparr>
     in s\<lparr>energyParticles := energyParticles s @ [particle]\<rparr>)"

definition addConcentrationLine :: "(nat \<Rightarrow> real) \<Rightarrow> nat \<Rightarrow> GachaState \<Rightarrow> GachaState" where
  "addConcentrationLine rnd k s =
    s\<lparr>concentrationLines :=
        concentrationLines s @ [newConcentrationLine rnd k (getCenterX s) (getCenterY s)]\<rparr>"

subsection \<open>handleTap\<close>

text \<open>\<^verbatim>\<open>handleTap\<close> calls \<^verbatim>\<open>Math.random()\<close> once, in its first branch.\<close>

definition handleTap :: "(nat \<Rightarrow> real) \<Rightarrow> GachaState \<Rightarrow> GachaState" where
  "handleTap rnd s =
    (if phase s = Idle then
       s\<lparr>phase := Charging,
         chargeProgress := 0,
         selectedFortune := js_index FORTUNES \<lfloor>rnd 0 * real (length FORTUNES)\<rfloor>,
         instructionVisible := False,
         tweens := tweens s @ [OverlayTween 0 0.7 0.5, BloomTween 2 1.5 1.5 False 0]\<rparr>
     else if phase s = Result then
       s\<lparr>phase := Idle,
         cardVisible := False,
         particles := [],
         instructionVisible := True,
         tweens := tweens s @ [OverlayTween 0.7 0 0.5, BloomTween 1.2 1.2 0.5 False 0]\<rparr>
     else s)"

subsection \<open>The ticker callback\<close>

text \<open>
  \<^verbatim>\<open>xs.filter(f)\<close> for a callback \<open>f\<close> that mutates the element it is given and returns
  whether to keep it: \<open>f\<close> is run on every element, in order, and the elements kept are
  the mutated ones.
\<close>

fun filterMut :: "('a \<Rightarrow> bool \<times> 'a) \<Rightarrow> 'a list \<Rightarrow> 'a list" where
  "filterMut f [] = []"
| "filterMut f (x # xs) =
    (let (keep, x') = f x in if keep then x' # filterMut f xs else filterMut f xs)"

text \<open>The callback of the filter over \<^verbatim>\<open>energyParticles\<close> in the charging branch.\<close>

definition energyFilter :: "real \<Rightarrow> real \<Rightarrow> real \<Rightarrow> Particle \<Rightarrow> bool \<times> Particle" where
  "energyFilter cx cy delta p =
    (let (alive, p') = update delta p;
         dist = hypot (p_x p' - cx) (p_y p' - cy)
     in if dist < 50 then (False, p') else (alive, p'))"

definition explosionColors :: "nat list" where
  "explosionColors = [0xffd700, 0xff6b9d, 0x7dd3fc, 0xa5b4fc, 0xffffff]"

text \<open>
  The explosion loop \<^verbatim>\<open>for (let i = 0; i < 150; i++)\<close>, with \<open>n\<close> the number of
  iterations still to run. An iteration calls \<^verbatim>\<open>Math.random()\<close> five times: the colour
  index, then the constructor.
\<close>

fun explosionLoop ::
  "(nat \<Rightarrow> real) \<Rightarrow> nat \<Rightarrow> real \<Rightarrow> real \<Rightarrow> nat \<Rightarrow> Particle list \<Rightarrow> Particle list" where
  "explosionLoop rnd k cx cy 0 ps = ps"
| "explosionLoop rnd k cx cy (Suc n) ps =
    (let color = js_index explosionColors \<lfloor>rnd k * real (length explosionColors)\<rfloor>
     in explosionLoop rnd (k + 5) cx cy n (ps @ [newParticle rnd (k + 1) cx cy color]))"

definition tickIdle :: "real \<Rightarrow> GachaState \<Rightarrow> GachaState" where
  "tickIdle delta s =
    (let s1 = s\<lparr>idleTime := idleTime s + delta * 0.02\<rparr>;
         s2 = s1\<lparr>instructionAlpha := 0.5 + sin (idleTime s1 * 2) * 0.3\<rparr>
     in s2\<lparr>instructionPosition := (getCenterX s2, getCenterY s2 + 200)\<rparr>)"

definition tickCharging :: "(nat \<Rightarrow> real) \<Rightarrow> real \<Rightarrow> GachaState \<Rightarrow> GachaState" where
  "tickCharging rnd delta s =
    (let s1 = s\<lparr>chargeProgress := addProgress (chargeProgress s) delta 90\<rparr>;
         (k1, s2) = (if rnd 0 < 0.3 then (8, addEnergyParticle rnd 1 s1) else (1, s1));
         (k2, s3) = (if rnd k1 < 0.2 then (k1 + 6, addConcentrationLine rnd (k1 + 1) s2)
                     else (k1 + 1, s2));
         s4 = s3\<lparr>energyParticles :=
                   filterMut (energyFilter (getCenterX s3) (getCenterY s3) delta)
                     (energyParticles s3)\<rparr>;
         s5 = s4\<lparr>concentrationLines := filterMut (updateLine delta) (concentrationLines s4)\<rparr>;
         sc = 1 + chargeProgress s5 * 0.1;
         s6 = s5\<lparr>gachaLayerScale := (sc, sc)\<rparr>;
         s7 = s6\<lparr>gachaLayerPosition :=
                   (getCenterX s6 * (1 - fst (gachaLayerScale s6))
                      + getCenterX s6 * (fst (gachaLayerScale s6) - 1),
                    getCenterY s6 * (1 - snd (gachaLayerScale s6))
                      + getCenterY s6 * (snd (gachaLayerScale s6) - 1))\<rparr>
     in if chargeProgress s7 \<ge> 1 then
          s7\<lparr>phase := Releasing,
             chargeProgress := 0,
             particles := explosionLoop rnd k2 (getCenterX s7) (getCenterY s7) 150 (particles s7),
             tweens := tweens s7 @ [FlashTween 1 0 0.3, BloomTween 3 2 0.2 True 1],
             concentrationLines := [],
             energyParticles := []\<rparr>
        else s7)"

definition tickReleasing :: "real \<Rightarrow> GachaState \<Rightarrow> GachaState" where
  "tickReleasing delta s =
    (let s1 = s\<lparr>chargeProgress := addProgress (chargeProgress s) delta 60\<rparr>;
         s2 = s1\<lparr>particles := filterMut (update delta) (particles s1)\<rparr>;
         s3 = s2\<lparr>gachaGraphicsAlpha := 1 - chargeProgress s2,
                 glowGraphicsAlpha := 1 - chargeProgress s2\<rparr>
     in if chargeProgress s3 \<ge> 1 then
          (case selectedFortune s3 of
             Some fortune \<Rightarrow>
               (let s4 = s3\<lparr>phase := Result,
                           gachaLayerScale := (1, 1),
                           cardVisible := True,
                           cardScale := (0, 0),
                           cardRotation := pi\<rparr>;
                    s5 = drawCard fortune 1 s4
                in s5\<lparr>tweens := tweens s5 @
                      [CardScaleTween 1 1 0.8, CardRotationTween 0 0.8,
                       BloomTween 1.5 1.3 0.5 False 0]\<rparr>)
           | None \<Rightarrow> s3)
        else s3)"

text \<open>
  In the result branch \<^verbatim>\<open>Math.random()\<close> is called once for the test and, when an ambient
  particle is made, eight more times: angle, dist, the constructor's four, \<^verbatim>\<open>vx\<close>, \<^verbatim>\<open>vy\<close>.
\<close>

definition tickResult :: "(nat \<Rightarrow> real) \<Rightarrow> real \<Rightarrow> GachaState \<Rightarrow> GachaState" where
  "tickResult rnd delta s =
    (let s1 = (if rnd 0 < 0.1 then
                 (case selectedFortune s of
                    Some fortune \<Rightarrow>
                      (let cx = getCenterX s;
                           cy = getCenterY s;
                           angle = rnd 1 * pi * 2;
                           dist = 150 + rnd 2 * 50;
                           p = newParticle rnd 3 (cx + cos angle * dist) (cy + sin angle * dist)
                                 (Some (f_color fortune));
                           p = p\<lparr>p_vx := (rnd 7 - 0.5) * 2\<rparr>;
                           p = p\<lparr>p_vy := - rnd 8 * 2 - 1\<rparr>;
                           p = p\<lparr>p_gravity := - 0.02\<rparr>
                       in s\<lparr>particles := particles s @ [p]\<rparr>)
                  | None \<Rightarrow> s)
               else s);
         s2 = s1\<lparr>particles := filterMut (update delta) (particles s1)\<rparr>;
         s3 = s2\<lparr>cardRotation := sin (idleTime s2 * 0.5) * 0.02\<rparr>
     in s3\<lparr>idleTime := idleTime s3 + delta * 0.02\<rparr>)"

definition ticker :: "(nat \<Rightarrow> real) \<Rightarrow> real \<Rightarrow> GachaState \<Rightarrow> GachaState" where
  "ticker rnd delta s =
    (case phase s of
       Idle \<Rightarrow> tickIdle delta s
     | Charging \<Rightarrow> tickCharging rnd delta s
     | Releasing \<Rightarrow> tickReleasing delta s
     | Result \<Rightarrow> tickResult rnd delta s)"

subsection \<open>handleResize, and runs of the component\<close>

definition handleResize :: "GachaState \<Rightarrow> GachaState" where
  "handleResize s =
    (let s1 = s\<lparr>instructionPosition := (getCenterX s, getCenterY s + 200)\<rparr>
     in if phase s1 = Result then
          (case selectedFortune s1 of
             Some fortune \<Rightarrow> drawCard fortune 1 s1
           | None \<Rightarrow> s1)
        else s1)"

text \<open>
  What can happen to a running component: a pointer event, a frame (with its
  \<^verbatim>\<open>ticker.deltaTime\<close>), the \<^verbatim>\<open>resize\<close> listener, and the renderer giving
  \<^verbatim>\<open>app.screen\<close> a new size. The callbacks run one at a time (JavaScript is
  single-threaded), so a run is a list of events.
\<close>

datatype Event =
    Tap "nat \<Rightarrow> real"
  | Tick "nat \<Rightarrow> real" real
  | Resize
  | ScreenSize real real

fun step :: "Event \<Rightarrow> GachaState \<Rightarrow> GachaState" where
  "step (Tap rnd) s = handleTap rnd s"
| "step (Tick rnd delta) s = ticker rnd delta s"
| "step Resize s = handleResize s"
| "step (ScreenSize w h) s = s\<lparr>screenWidth := w, screenHeight := h\<rparr>"

fun run :: "Event list \<Rightarrow> GachaState \<Rightarrow> GachaState" where
  "run [] s = s"
| "run (e # es) s = run es (step e s)"

text \<open>The states a run goes through, the first one included.\<close>

fun trace :: "Event list \<Rightarrow> GachaState \<Rightarrow> GachaState list" where
  "trace [] s = [s]"
| "trace (e # es) s = s # trace es (step e s)"

subsection \<open>Vocabulary of the properties\<close>

text \<open>The contract of \<^verbatim>\<open>Math.random()\<close>: every value drawn lies in \<open>[0, 1)\<close>.\<close>

definition unitInterval :: "(nat \<Rightarrow> real) \<Rightarrow> bool" where
  "unitInterval rnd = (\<forall>k. 0 \<le> rnd k \<and> rnd k < 1)"

fun rndOk :: "Event \<Rightarrow> bool" where
  "rndOk (Tap rnd) = unitInterval rnd"
| "rndOk (Tick rnd delta) = unitInterval rnd"
| "rndOk Resize = True"
| "rndOk (ScreenSize w h) = True"

fun isTap :: "Event \<Rightarrow> bool" where
  "isTap (Tap rnd) = True"
| "isTap (Tick rnd delta) = False"
| "isTap Resize = False"
| "isTap (ScreenSize w h) = False"

text \<open>The cycle of the phases, and the lists of phases that only move along it.\<close>

fun nextPhase :: "GachaPhase \<Rightarrow> GachaPhase" where
  "nextPhase Idle = Charging"
| "nextPhase Charging = Releasing"
| "nextPhase Releasing = Result"
| "nextPhase Result = Idle"

fun alongCycle :: "GachaPhase list \<Rightarrow> bool" where
  "alongCycle [] = True"
| "alongCycle [a] = True"
| "alongCycle (a # b # ps) = ((b = a \<or> b = nextPhase a) \<and> alongCycle (b # ps))"

text \<open>A list of frames, each with its random draws and its \<^verbatim>\<open>deltaTime\<close>.\<close>

definition frames :: "((nat \<Rightarrow> real) \<times> real) list \<Rightarrow> Event list" where
  "frames fs = map (\<lambda>(rnd, delta). Tick rnd delta) fs"

text \<open>
  The progress after charging frames with the given deltas, from the progress \<open>c\<close>, when
  every one of them leaves the progress below 1 (so that none of them ends the charge);
  \<open>None\<close> when one of them does not.
\<close>

fun chargeRun :: "real \<Rightarrow> real list \<Rightarrow> real option" where
  "chargeRun c [] = Some c"
| "chargeRun c (delta # ds) =
    (let c' = addProgress c delta 90 in if c' < 1 then chargeRun c' ds else None)"




text \<open>The distance of a particle from the centre of the screen.\<close>

definition centerDist :: "GachaState \<Rightarrow> Particle \<Rightarrow> real" where
  "centerDist s p = hypot (p_x p - getCenterX s) (p_y p - getCenterY s)"

text \<open>
  Following the spec's words (``degenerate geometry must be guarded by clamping the
  minimum distance to a small positive epsilon before normalizing''):
  \<^verbatim>\<open>addEnergyParticle\<close> with the distance clamped to \<open>eps\<close> where the direction towards
  the centre is divided by it. The source has no such clamp; this variant is what the
  source is compared with.
\<close>

definition addEnergyParticle_clamped ::
  "real \<Rightarrow> (nat \<Rightarrow> real) \<Rightarrow> nat \<Rightarrow> GachaState \<Rightarrow> GachaState" where
  "addEnergyParticle_clamped eps rnd k s =
    (let cx = getCenterX s;
         cy = getCenterY s;
         angle = rnd k * pi * 2;
         distance = energyDistance rnd k;
         x = cx + cos angle * distance;
         y = cy + sin angle * distance;
         particle = newParticle rnd (k + 2) x y (Some 0xa5b4fc);
         speed = rnd (k + 6) * 5 + 3;
         clamped = max eps distance;
         particle = particle\<lparr>p_vx := (cx - x) / clamped * speed * 3\<rparr>;
         particle = particle\<lparr>p_vy := (cy - y) / clamped * speed * 3\<rparr>;
         particle = particle\<lparr>p_gravity := 0\<rparr>;
         particle = particle\<lparr>p_friction := 1\<rparr>;
         particle = particle\<lparr>p_maxLife := distance / (speed * 60)\<rparr>
     in s\<lparr>energyParticles := energyParticles s @ [particle]\<rparr>)"

text \<open>
  Two values for examples: an energy particle at rest with full life, 10 units to the
  right of the centre of an 800 by 600 screen, and a charging state that holds it.
\<close>

definition nearParticle :: Particle where
  "nearParticle =
    \<lparr>p_x = 410, p_y = 300, p_vx = 0, p_vy = 0, p_life = 1, p_maxLife = 1, p_size = 2,
     p_color = Some 0xa5b4fc, p_gravity = 0, p_friction = 1\<rparr>"

definition chargingExample :: GachaState where
  "chargingExample = (initState 800 600)\<lparr>phase := Charging, energyParticles := [nearParticle]\<rparr>"

section \<open>Properties\<close>

subsection \<open>What each callback does to the phase and to the selected fortune\<close>


lemma phase_handleTap:
  "phase (handleTap rnd s) =
    (if phase s = Idle then Charging else if phase s = Result then Idle else phase s)"
  by (simp add: handleTap_def)

lemma selectedFortune_handleTap:
  "selectedFortune (handleTap rnd s) =
    (if phase s = Idle then js_index FORTUNES \<lfloor>rnd 0 * 6\<rfloor> else selectedFortune s)"
  by (simp add: handleTap_def FORTUNES_def)

lemma drawCard_keeps:
  "phase (drawCard f pr s) = phase s"
  "selectedFortune (drawCard f pr s) = selectedFortune s"
  "chargeProgress (drawCard f pr s) = chargeProgress s"
  "particles (drawCard f pr s) = particles s"
  "energyParticles (drawCard f pr s) = energyParticles s"
  "tweens (drawCard f pr s) = tweens s"
  by (simp_all add: drawCard_def)

lemma addEnergyParticle_keeps:
  "phase (addEnergyParticle rnd k s) = phase s"
  "selectedFortune (addEnergyParticle rnd k s) = selectedFortune s"
  "chargeProgress (addEnergyParticle rnd k s) = chargeProgress s"
  "particles (addEnergyParticle rnd k s) = particles s"
  "screenWidth (addEnergyParticle rnd k s) = screenWidth s"
  "screenHeight (addEnergyParticle rnd k s) = screenHeight s"
  "tweens (addEnergyParticle rnd k s) = tweens s"
  "concentrationLines (addEnergyParticle rnd k s) = concentrationLines s"
  by (simp_all add: addEnergyParticle_def Let_def)

lemma addConcentrationLine_keeps:
  "phase (addConcentrationLine rnd k s) = phase s"
  "selectedFortune (addConcentrationLine rnd k s) = selectedFortune s"
  "chargeProgress (addConcentrationLine rnd k s) = chargeProgress s"
  "particles (addConcentrationLine rnd k s) = particles s"
  "screenWidth (addConcentrationLine rnd k s) = screenWidth s"
  "screenHeight (addConcentrationLine rnd k s) = screenHeight s"
  "tweens (addConcentrationLine rnd k s) = tweens s"
  "energyParticles (addConcentrationLine rnd k s) = energyParticles s"
  by (simp_all add: addConcentrationLine_def)

lemma phase_tickCharging:
  "phase (tickCharging rnd delta s) =
    (if addProgress (chargeProgress s) delta 90 \<ge> 1 then Releasing else phase s)"
  by (simp add: tickCharging_def Let_def split_def addEnergyParticle_keeps addConcentrationLine_keeps)

lemma selectedFortune_tickCharging:
  "selectedFortune (tickCharging rnd delta s) = selectedFortune s"
  by (simp add: tickCharging_def Let_def split_def addEnergyParticle_keeps addConcentrationLine_keeps)

lemma chargeProgress_tickCharging:
  "chargeProgress (tickCharging rnd delta s) =
    (if addProgress (chargeProgress s) delta 90 \<ge> 1 then 0 else addProgress (chargeProgress s) delta 90)"
  by (simp add: tickCharging_def Let_def split_def addEnergyParticle_keeps addConcentrationLine_keeps)

lemma phase_tickReleasing:
  "phase (tickReleasing delta s) =
    (if addProgress (chargeProgress s) delta 60 \<ge> 1 \<and> selectedFortune s \<noteq> None then Result else phase s)"
  by (simp add: tickReleasing_def Let_def drawCard_keeps split: option.splits)

lemma selectedFortune_tickReleasing:
  "selectedFortune (tickReleasing delta s) = selectedFortune s"
  by (simp add: tickReleasing_def Let_def drawCard_keeps split: option.splits)

lemma phase_tickResult: "phase (tickResult rnd delta s) = phase s"
  by (simp add: tickResult_def Let_def split: option.splits)

lemma selectedFortune_tickResult: "selectedFortune (tickResult rnd delta s) = selectedFortune s"
  by (simp add: tickResult_def Let_def split: option.splits)

lemma phase_tickIdle: "phase (tickIdle delta s) = phase s"
  by (simp add: tickIdle_def Let_def)

lemma selectedFortune_tickIdle: "selectedFortune (tickIdle delta s) = selectedFortune s"
  by (simp add: tickIdle_def Let_def)

lemma phase_handleResize: "phase (handleResize s) = phase s"
  by (simp add: handleResize_def Let_def drawCard_keeps split: option.splits)

lemma selectedFortune_handleResize: "selectedFortune (handleResize s) = selectedFortune s"
  by (simp add: handleResize_def Let_def drawCard_keeps split: option.splits)

lemma phase_ticker:
  "phase (ticker rnd delta s) =
    (case phase s of
       Idle \<Rightarrow> Idle
     | Charging \<Rightarrow> if addProgress (chargeProgress s) delta 90 \<ge> 1 then Releasing else Charging
     | Releasing \<Rightarrow>
         if addProgress (chargeProgress s) delta 60 \<ge> 1 \<and> selectedFortune s \<noteq> None then Result
         else Releasing
     | Result \<Rightarrow> Result)"
  by (simp add: ticker_def phase_tickIdle phase_tickCharging phase_tickReleasing phase_tickResult
      split: GachaPhase.splits)

lemma selectedFortune_ticker: "selectedFortune (ticker rnd delta s) = selectedFortune s"
  by (simp add: ticker_def selectedFortune_tickIdle selectedFortune_tickCharging
      selectedFortune_tickReleasing selectedFortune_tickResult split: GachaPhase.splits)

lemma phase_step:
  "phase (step e s) = phase s \<or> phase (step e s) = nextPhase (phase s)"
  by (cases e; cases "phase s") (simp_all add: phase_handleTap phase_ticker phase_handleResize)

lemma trace_hd: "\<exists>ts. trace evs s = s # ts"
  by (cases evs) simp_all

lemma chargeProgress_handleTap:
  "chargeProgress (handleTap rnd s) = (if phase s = Idle then 0 else chargeProgress s)"
  by (simp add: handleTap_def)

lemma chargeProgress_ticker:
  "chargeProgress (ticker rnd delta s) =
    (case phase s of
       Idle \<Rightarrow> chargeProgress s
     | Charging \<Rightarrow>
         if addProgress (chargeProgress s) delta 90 \<ge> 1 then 0 else addProgress (chargeProgress s) delta 90
     | Releasing \<Rightarrow> addProgress (chargeProgress s) delta 60
     | Result \<Rightarrow> chargeProgress s)"
  by (simp add: ticker_def tickIdle_def chargeProgress_tickCharging tickReleasing_def
      tickResult_def Let_def drawCard_keeps split: GachaPhase.splits option.splits)

lemma initState_proj:
  "phase (initState w h) = Idle"
  "chargeProgress (initState w h) = 0"
  "selectedFortune (initState w h) = None"
  "particles (initState w h) = []"
  "energyParticles (initState w h) = []"
  by (simp_all add: initState_def)

lemma js_index_FORTUNES_0: "js_index FORTUNES 0 = Some (FORTUNES ! 0)"
  by (simp add: js_index_def FORTUNES_def)

lemma roundDouble_1: "roundDouble 1 = 1"
  by (simp add: roundDouble_def expOf.simps roundHalfEven_def pow2_def)

lemma addProgress_0_full: "addProgress 0 90 90 = 1" "addProgress 0 60 60 = 1"
  by (simp_all add: addProgress_def roundDouble_1)

subsection \<open>The phase cycle\<close>

text \<open>
  Claim C1. Whatever the events of a run are (pointer events, frames, resizes, in any
  order and with any random draws and frame deltas) and whatever state it starts in, the
  phase of each state of the run is the phase of the state before it or the successor of
  that phase in the cycle idle, charging, releasing, result, idle. So no phase is
  skipped, and a phase is entered only from its predecessor in the cycle.
\<close>

theorem C1_phase_moves_along_cycle: "alongCycle (map phase (trace evs s))"
proof (induction evs arbitrary: s)
  case Nil
  show ?case by simp
next
  case (Cons e es)
  obtain ts where ts: "trace es (step e s) = step e s # ts"
    using trace_hd by blast
  from Cons.IH [of "step e s"] phase_step [of e s] show ?case
    by (simp add: ts)
qed

text \<open>
  A run that goes once round the cycle: a tap, a frame of 90 ticks, a frame of 60 ticks,
  a tap.
\<close>

theorem C1_phase_moves_along_cycle_witness:
  "alongCycle (map phase (trace [Tap (\<lambda>k. 0), Tick (\<lambda>k. 0) 90, Tick (\<lambda>k. 0) 60, Tap (\<lambda>k. 0)]
      (initState 800 600)))
   \<and> map phase (trace [Tap (\<lambda>k. 0), Tick (\<lambda>k. 0) 90, Tick (\<lambda>k. 0) 60, Tap (\<lambda>k. 0)]
      (initState 800 600)) = [Idle, Charging, Releasing, Result, Idle]"
  using C1_phase_moves_along_cycle
    [of "[Tap (\<lambda>k. 0), Tick (\<lambda>k. 0) 90, Tick (\<lambda>k. 0) 60, Tap (\<lambda>k. 0)]" "initState 800 600"]
  by (simp add: phase_handleTap phase_ticker chargeProgress_handleTap chargeProgress_ticker
      selectedFortune_handleTap selectedFortune_ticker initState_proj js_index_FORTUNES_0 addProgress_0_full)

subsection \<open>Input during a draw\<close>

text \<open>
  Claim C2. In a state whose phase is charging or releasing, \<^verbatim>\<open>handleTap\<close> returns the
  state it was given: no field of the state changes, the phase, the progress and the
  selected fortune included.
\<close>

theorem C2_tap_ignored_during_draw:
  "phase s = Charging \<or> phase s = Releasing \<Longrightarrow> handleTap rnd s = s"
  by (auto simp: handleTap_def)

theorem C2_tap_ignored_during_draw_witness:
  "(phase ((initState 800 600)\<lparr>phase := Charging\<rparr>) = Charging
      \<or> phase ((initState 800 600)\<lparr>phase := Charging\<rparr>) = Releasing)
   \<and> handleTap (\<lambda>k. 0) ((initState 800 600)\<lparr>phase := Charging\<rparr>)
       = (initState 800 600)\<lparr>phase := Charging\<rparr>"
  using C2_tap_ignored_during_draw [of "(initState 800 600)\<lparr>phase := Charging\<rparr>" "\<lambda>k. 0"]
  by simp

subsection \<open>Particle.update\<close>

text \<open>
  Claim C5. For every particle whose \<open>maxLife\<close> is not 0 and every delta,
  \<^verbatim>\<open>update(delta)\<close> adds \<open>gravity * delta\<close> to \<open>vy\<close>, then multiplies \<open>vx\<close> and \<open>vy\<close>
  by \<open>friction\<close>, then adds the new velocity times \<open>delta\<close> to the position, then takes
  \<open>delta / 60 / maxLife\<close> (the quotient of delta by \<open>60 * maxLife\<close>, computed by two
  divisions) from \<open>life\<close>; it changes no other field, and it returns true exactly when
  the new \<open>life\<close> is greater than 0.
\<close>

theorem C5_update_exact:
  "p_maxLife p \<noteq> 0 \<Longrightarrow>
   update delta p =
    (p_life p - delta / 60 / p_maxLife p > 0,
     p\<lparr>p_vx := p_vx p * p_friction p,
       p_vy := (p_vy p + p_gravity p * delta) * p_friction p,
       p_x := p_x p + (p_vx p * p_friction p) * delta,
       p_y := p_y p + ((p_vy p + p_gravity p * delta) * p_friction p) * delta,
       p_life := p_life p - delta / 60 / p_maxLife p\<rparr>)"
  by (simp add: update_def Let_def)

text \<open>The particle of the examples (at rest, no gravity, \<open>maxLife\<close> 1) after one tick.\<close>

theorem C5_update_exact_witness:
  "p_maxLife nearParticle \<noteq> 0
   \<and> update 1 nearParticle = (True, nearParticle\<lparr>p_life := 59 / 60\<rparr>)"
proof -
  have h: "p_maxLife nearParticle \<noteq> 0"
    by (simp add: nearParticle_def)
  from C5_update_exact [OF h, of 1] h show ?thesis
    by (simp add: nearParticle_def)
qed

subsection \<open>The position of the gacha layer while charging\<close>

text \<open>
  Claim C9. Every frame of the charging phase sets the position of the gacha layer to
  \<open>(0, 0)\<close>, for every scale and every centre: each coordinate is
  \<open>c * (1 - s) + c * (s - 1)\<close>, which is zero. The layer is therefore scaled about its
  own origin.
\<close>

theorem C9_layer_position_zero:
  "phase s = Charging \<Longrightarrow> gachaLayerPosition (ticker rnd delta s) = (0, 0)"
  by (simp add: ticker_def tickCharging_def Let_def split_def getCenterX_def getCenterY_def
      addEnergyParticle_def addConcentrationLine_def)

theorem C9_layer_position_zero_witness:
  "phase ((initState 800 600)\<lparr>phase := Charging, chargeProgress := 0.5\<rparr>) = Charging
   \<and> gachaLayerPosition
        (ticker (\<lambda>k. 0.5) 1 ((initState 800 600)\<lparr>phase := Charging, chargeProgress := 0.5\<rparr>))
       = (0, 0)"
  using C9_layer_position_zero
    [of "(initState 800 600)\<lparr>phase := Charging, chargeProgress := 0.5\<rparr>" "\<lambda>k. 0.5" 1]
  by simp

subsection \<open>The selected fortune\<close>

lemma selectedFortune_step_not_idle:
  "phase s \<noteq> Idle \<Longrightarrow> selectedFortune (step e s) = selectedFortune s"
  by (cases e) (simp_all add: selectedFortune_handleTap selectedFortune_ticker
      selectedFortune_handleResize)

lemma trace_not_Nil: "trace evs s \<noteq> []"
  by (cases evs) simp_all

lemma selectedFortune_trace_fixed:
  "\<forall>t \<in> set (butlast (trace evs c)). phase t \<noteq> Idle \<Longrightarrow>
   \<forall>t \<in> set (trace evs c). selectedFortune t = selectedFortune c"
proof (induction evs arbitrary: c)
  case Nil
  show ?case by simp
next
  case (Cons e es)
  from Cons.prems have c: "phase c \<noteq> Idle"
    and rest: "\<forall>t \<in> set (butlast (trace es (step e c))). phase t \<noteq> Idle"
    by (simp_all add: trace_not_Nil)
  from c have "selectedFortune (step e c) = selectedFortune c"
    by (rule selectedFortune_step_not_idle)
  with Cons.IH [OF rest] show ?case by simp
qed

lemma length_FORTUNES: "length FORTUNES = 6"
  by (simp add: FORTUNES_def)

text \<open>
  Claim C3. A tap in the idle phase starts the cycle: it moves to charging and assigns
  \<^verbatim>\<open>FORTUNES[Math.floor(Math.random() * FORTUNES.length)]\<close> to \<open>selectedFortune\<close>. From
  there on, through any events, as long as the run has not come back to idle before an
  event, every state of the run (the one that comes back to idle included) holds that
  same value. No frame changes \<open>selectedFortune\<close>, in any state.
\<close>

theorem C3_selectedFortune_written_once:
  assumes idle: "phase s = Idle"
    and open_cycle: "\<forall>t \<in> set (butlast (trace evs (handleTap rnd s))). phase t \<noteq> Idle"
  shows "phase (handleTap rnd s) = Charging
    \<and> selectedFortune (handleTap rnd s) = js_index FORTUNES \<lfloor>rnd 0 * real (length FORTUNES)\<rfloor>
    \<and> (\<forall>t \<in> set (trace evs (handleTap rnd s)).
          selectedFortune t = selectedFortune (handleTap rnd s))
    \<and> (\<forall>rnd' delta t. selectedFortune (ticker rnd' delta t) = selectedFortune t)"
proof -
  have "phase (handleTap rnd s) = Charging"
    using idle by (simp add: phase_handleTap)
  moreover have "selectedFortune (handleTap rnd s)
      = js_index FORTUNES \<lfloor>rnd 0 * real (length FORTUNES)\<rfloor>"
    using idle by (simp add: selectedFortune_handleTap length_FORTUNES)
  moreover note selectedFortune_trace_fixed [OF open_cycle] selectedFortune_ticker
  ultimately show ?thesis by blast
qed

text \<open>A whole cycle: the tap, then a frame of 90, a frame of 60 and the tap that ends it.\<close>

theorem C3_selectedFortune_written_once_witness:
  "phase (initState 800 600) = Idle
   \<and> selectedFortune (handleTap (\<lambda>k. 0) (initState 800 600)) = Some (FORTUNES ! 0)
   \<and> selectedFortune (run [Tick (\<lambda>k. 0) 90, Tick (\<lambda>k. 0) 60, Tap (\<lambda>k. 0)]
          (handleTap (\<lambda>k. 0) (initState 800 600))) = Some (FORTUNES ! 0)
   \<and> phase (run [Tick (\<lambda>k. 0) 90, Tick (\<lambda>k. 0) 60, Tap (\<lambda>k. 0)]
          (handleTap (\<lambda>k. 0) (initState 800 600))) = Idle"
proof -
  have h1: "phase (initState 800 600) = Idle"
    by (simp add: initState_proj)
  have h2: "\<forall>t \<in> set (butlast (trace [Tick (\<lambda>k. 0) 90, Tick (\<lambda>k. 0) 60, Tap (\<lambda>k. 0)]
      (handleTap (\<lambda>k. 0) (initState 800 600)))). phase t \<noteq> Idle"
    by (simp add: phase_handleTap phase_ticker chargeProgress_handleTap chargeProgress_ticker
        selectedFortune_handleTap selectedFortune_ticker initState_proj js_index_FORTUNES_0 addProgress_0_full)
  have h3: "phase (run [Tick (\<lambda>k. 0) 90, Tick (\<lambda>k. 0) 60, Tap (\<lambda>k. 0)]
      (handleTap (\<lambda>k. 0) (initState 800 600))) = Idle"
    by (simp add: phase_handleTap phase_ticker chargeProgress_handleTap chargeProgress_ticker
        selectedFortune_handleTap selectedFortune_ticker initState_proj js_index_FORTUNES_0 addProgress_0_full)
  note t = C3_selectedFortune_written_once [OF h1 h2]
  from t have a: "selectedFortune (handleTap (\<lambda>k. 0) (initState 800 600)) = Some (FORTUNES ! 0)"
    by (simp add: length_FORTUNES js_index_FORTUNES_0)
  from t have "selectedFortune (run [Tick (\<lambda>k. 0) 90, Tick (\<lambda>k. 0) 60, Tap (\<lambda>k. 0)]
      (handleTap (\<lambda>k. 0) (initState 800 600)))
      = selectedFortune (handleTap (\<lambda>k. 0) (initState 800 600))"
    by simp
  with a have b: "selectedFortune (run [Tick (\<lambda>k. 0) 90, Tick (\<lambda>k. 0) 60, Tap (\<lambda>k. 0)]
      (handleTap (\<lambda>k. 0) (initState 800 600))) = Some (FORTUNES ! 0)"
    by (simp only:)
  show ?thesis
    by (rule conjI [OF h1 conjI [OF a conjI [OF b h3]]])
qed

lemma floor_index: "0 \<le> r \<Longrightarrow> r < 1 \<Longrightarrow> 0 \<le> \<lfloor>r * 6\<rfloor> \<and> \<lfloor>r * 6\<rfloor> < (6::int)"
  by (simp add: floor_less_iff)

lemma js_index_FORTUNES_Some:
  "0 \<le> r \<Longrightarrow> r < 1 \<Longrightarrow> js_index FORTUNES \<lfloor>r * 6\<rfloor> \<noteq> None"
  using floor_index [of r] by (simp add: js_index_def FORTUNES_def)

lemma step_keeps_Some:
  "rndOk e \<Longrightarrow> selectedFortune s \<noteq> None \<Longrightarrow> selectedFortune (step e s) \<noteq> None"
  by (cases e) (simp_all add: selectedFortune_handleTap selectedFortune_ticker
      selectedFortune_handleResize unitInterval_def js_index_FORTUNES_Some del: not_None_eq)

lemma run_keeps_Some:
  "\<forall>e \<in> set evs. rndOk e \<Longrightarrow> selectedFortune s \<noteq> None \<Longrightarrow>
   selectedFortune (run evs s) \<noteq> None"
  by (induction evs arbitrary: s) (simp_all add: step_keeps_Some del: not_None_eq)

lemma run_from_idle_unselected:
  "\<forall>e \<in> set evs. rndOk e \<Longrightarrow> phase s = Idle \<Longrightarrow> selectedFortune s = None \<Longrightarrow>
   (selectedFortune (run evs s) = None) = (\<forall>e \<in> set evs. \<not> isTap e)
   \<and> (selectedFortune (run evs s) = None \<longrightarrow> phase (run evs s) = Idle)"
proof (induction evs arbitrary: s)
  case Nil
  then show ?case by simp
next
  case (Cons e es)
  show ?case
  proof (cases "isTap e")
    case True
    then obtain rnd where e: "e = Tap rnd" by (cases e) simp_all
    with Cons.prems have "unitInterval rnd" by simp
    then have "selectedFortune (step e s) \<noteq> None"
      using Cons.prems(2) by (simp add: e selectedFortune_handleTap unitInterval_def
          js_index_FORTUNES_Some del: not_None_eq)
    with Cons.prems(1) have "selectedFortune (run es (step e s)) \<noteq> None"
      by (simp add: run_keeps_Some del: not_None_eq)
    with True show ?thesis by (simp del: not_None_eq)
  next
    case False
    with Cons.prems have "phase (step e s) = Idle" "selectedFortune (step e s) = None"
      by (cases e; simp add: phase_ticker selectedFortune_ticker phase_handleResize
          selectedFortune_handleResize)+
    with Cons.IH [of "step e s"] Cons.prems(1) False show ?thesis by simp
  qed
qed

text \<open>
  Claim C10. The tap that leaves the result phase goes to idle and keeps
  \<open>selectedFortune\<close>. In a run from the initial state whose random draws are in
  \<open>[0, 1)\<close>, \<open>selectedFortune\<close> is null exactly as long as no tap has happened (the
  first tap is the first idle to charging transition), and a state where it is null is
  idle.
\<close>

theorem C10_selectedFortune_never_reset:
  assumes "\<forall>e \<in> set evs. rndOk e"
  shows "(phase s = Result \<longrightarrow>
            phase (handleTap rnd s) = Idle \<and> selectedFortune (handleTap rnd s) = selectedFortune s)
    \<and> (selectedFortune (run evs (initState w h)) = None) = (\<forall>e \<in> set evs. \<not> isTap e)
    \<and> (selectedFortune (run evs (initState w h)) = None \<longrightarrow> phase (run evs (initState w h)) = Idle)"
proof -
  have "phase s = Result \<longrightarrow>
      phase (handleTap rnd s) = Idle \<and> selectedFortune (handleTap rnd s) = selectedFortune s"
    by (simp add: phase_handleTap selectedFortune_handleTap)
  moreover have "(selectedFortune (run evs (initState w h)) = None) = (\<forall>e \<in> set evs. \<not> isTap e)
      \<and> (selectedFortune (run evs (initState w h)) = None \<longrightarrow> phase (run evs (initState w h)) = Idle)"
    by (rule run_from_idle_unselected [OF assms]) (simp_all add: initState_proj)
  ultimately show ?thesis by blast
qed

theorem C10_selectedFortune_never_reset_witness:
  "phase (run [Tap (\<lambda>k. 0), Tick (\<lambda>k. 0) 90, Tick (\<lambda>k. 0) 60] (initState 800 600)) = Result
   \<and> phase (handleTap (\<lambda>k. 0)
        (run [Tap (\<lambda>k. 0), Tick (\<lambda>k. 0) 90, Tick (\<lambda>k. 0) 60] (initState 800 600))) = Idle
   \<and> selectedFortune (run [Tap (\<lambda>k. 0), Tick (\<lambda>k. 0) 90, Tick (\<lambda>k. 0) 60, Tap (\<lambda>k. 0)]
        (initState 800 600)) \<noteq> None"
proof -
  have h: "\<forall>e \<in> set [Tap (\<lambda>k. 0), Tick (\<lambda>k. 0) 90, Tick (\<lambda>k. 0) 60, Tap (\<lambda>k. 0)]. rndOk e"
    by (simp add: unitInterval_def)
  have r: "phase (run [Tap (\<lambda>k. 0), Tick (\<lambda>k. 0) 90, Tick (\<lambda>k. 0) 60] (initState 800 600)) = Result"
    by (simp add: phase_handleTap phase_ticker chargeProgress_handleTap chargeProgress_ticker
        selectedFortune_handleTap selectedFortune_ticker initState_proj js_index_FORTUNES_0 addProgress_0_full)
  note c = C10_selectedFortune_never_reset [OF h,
      of "run [Tap (\<lambda>k. 0), Tick (\<lambda>k. 0) 90, Tick (\<lambda>k. 0) 60] (initState 800 600)" "\<lambda>k. 0" 800 600]
  from c r have i: "phase (handleTap (\<lambda>k. 0)
      (run [Tap (\<lambda>k. 0), Tick (\<lambda>k. 0) 90, Tick (\<lambda>k. 0) 60] (initState 800 600))) = Idle"
    by blast
  from c have n: "selectedFortune (run [Tap (\<lambda>k. 0), Tick (\<lambda>k. 0) 90, Tick (\<lambda>k. 0) 60, Tap (\<lambda>k. 0)]
      (initState 800 600)) \<noteq> None"
    by (simp del: not_None_eq)
  show ?thesis
    by (rule conjI [OF r conjI [OF i n]])
qed

subsection \<open>From the tap to the explosion\<close>

lemma explosionLoop_append:
  "explosionLoop rnd k cx cy n ps = ps @ explosionLoop rnd k cx cy n []"
proof (induction n arbitrary: k ps)
  case 0
  show ?case by simp
next
  case (Suc n)
  show ?case
    using Suc.IH [of "k + 5" "ps @ [newParticle rnd (k + 1) cx cy
        (js_index explosionColors \<lfloor>rnd k * real (length explosionColors)\<rfloor>)]"]
      Suc.IH [of "k + 5" "[newParticle rnd (k + 1) cx cy
        (js_index explosionColors \<lfloor>rnd k * real (length explosionColors)\<rfloor>)]"]
    by (simp add: Let_def)
qed

lemma length_explosionLoop: "length (explosionLoop rnd k cx cy n ps) = length ps + n"
  by (induction n arbitrary: k ps) (simp_all add: Let_def)

lemma length_explosionColors: "length explosionColors = 5"
  by (simp add: explosionColors_def)

lemma explosion_color_in_palette:
  "0 \<le> r \<Longrightarrow> r < 1 \<Longrightarrow>
   js_index explosionColors \<lfloor>r * real (length explosionColors)\<rfloor> \<in> Some ` set explosionColors"
proof -
  assume r: "0 \<le> r" "r < 1"
  then have "0 \<le> \<lfloor>r * 5\<rfloor>" "\<lfloor>r * 5\<rfloor> < 5"
    by (simp_all add: floor_less_iff)
  then have "nat \<lfloor>r * 5\<rfloor> < length explosionColors"
    unfolding length_explosionColors by linarith
  then have "explosionColors ! nat \<lfloor>r * 5\<rfloor> \<in> set explosionColors"
    by (rule nth_mem)
  moreover have "js_index explosionColors \<lfloor>r * real (length explosionColors)\<rfloor>
      = Some (explosionColors ! nat \<lfloor>r * 5\<rfloor>)"
    using \<open>0 \<le> \<lfloor>r * 5\<rfloor>\<close> \<open>\<lfloor>r * 5\<rfloor> < 5\<close> by (simp add: js_index_def length_explosionColors)
  ultimately show ?thesis by simp
qed

lemma p_color_newParticle: "p_color (newParticle rnd k x y c) = c"
  by (simp add: newParticle_def Let_def)

lemma explosionLoop_colors:
  "unitInterval rnd \<Longrightarrow>
   \<forall>p \<in> set (explosionLoop rnd k cx cy n []). p_color p \<in> Some ` set explosionColors"
proof (induction n arbitrary: k)
  case 0
  show ?case by simp
next
  case (Suc n)
  from Suc.prems have "0 \<le> rnd k" "rnd k < 1"
    by (simp_all add: unitInterval_def)
  then have c: "js_index explosionColors \<lfloor>rnd k * real (length explosionColors)\<rfloor>
      \<in> Some ` set explosionColors"
    by (rule explosion_color_in_palette)
  have "explosionLoop rnd k cx cy (Suc n) []
      = newParticle rnd (k + 1) cx cy
          (js_index explosionColors \<lfloor>rnd k * real (length explosionColors)\<rfloor>)
        # explosionLoop rnd (k + 5) cx cy n []"
    using explosionLoop_append [of rnd "k + 5" cx cy n "[newParticle rnd (k + 1) cx cy
        (js_index explosionColors \<lfloor>rnd k * real (length explosionColors)\<rfloor>)]"]
    by (simp add: Let_def)
  with c Suc.IH [OF Suc.prems, of "k + 5"] show ?case
    by (simp add: p_color_newParticle)
qed

lemma particles_tickCharging:
  "\<exists>k. particles (tickCharging rnd delta s) =
    (if addProgress (chargeProgress s) delta 90 \<ge> 1
     then explosionLoop rnd k (getCenterX s) (getCenterY s) 150 (particles s)
     else particles s)"
  by (auto simp add: tickCharging_def Let_def split_def addEnergyParticle_keeps
      addConcentrationLine_keeps getCenterX_def getCenterY_def)

lemma particles_handleTap_idle:
  "phase s = Idle \<Longrightarrow> particles (handleTap rnd s) = particles s"
  by (simp add: handleTap_def)

lemma run_append: "run (xs @ ys) s = run ys (run xs s)"
  by (induction xs arbitrary: s) simp_all

lemma frames_snoc: "frames (fs @ [(rnd, delta)]) = frames fs @ [Tick rnd delta]"
  by (simp add: frames_def)


lemma charging_run:
  "phase c = Charging \<Longrightarrow> chargeRun (chargeProgress c) (map snd fs) = Some p \<Longrightarrow>
   phase (run (frames fs) c) = Charging
   \<and> chargeProgress (run (frames fs) c) = p
   \<and> particles (run (frames fs) c) = particles c"
proof (induction fs arbitrary: c)
  case Nil
  then show ?case by (simp add: frames_def)
next
  case (Cons f fs)
  obtain rnd delta where f: "f = (rnd, delta)" by (cases f)
  let ?c = "tickCharging rnd delta c"
  from Cons.prems(2) have below: "addProgress (chargeProgress c) delta 90 < 1"
    and rest: "chargeRun (addProgress (chargeProgress c) delta 90) (map snd fs) = Some p"
    by (simp_all add: f Let_def split: if_splits)
  from below have nge: "\<not> addProgress (chargeProgress c) delta 90 \<ge> 1"
    by simp
  from nge Cons.prems(1) have ph: "phase ?c = Charging"
    by (simp add: phase_tickCharging)
  from nge have cp: "chargeProgress ?c = addProgress (chargeProgress c) delta 90"
    by (simp add: chargeProgress_tickCharging)
  from nge particles_tickCharging [of rnd delta c] have pa: "particles ?c = particles c"
    by simp
  from rest have "chargeRun (chargeProgress ?c) (map snd fs) = Some p"
    by (simp only: cp)
  from Cons.IH [OF ph this] pa Cons.prems(1) show ?case
    by (simp add: f frames_def ticker_def)
qed

lemma expOf_ge_1:
  "1 \<le> x \<Longrightarrow> 0 \<le> expOf n x \<and> 2 ^ nat (expOf n x) \<le> x"
proof (induction n x rule: expOf.induct)
  case (1 n x)
  show ?case
  proof (cases "n = 0")
    case True
    with "1.prems" show ?thesis by (simp add: expOf.simps)
  next
    case n: False
    show ?thesis
    proof (cases "2 \<le> x")
      case True
      with "1.prems" n have ih: "0 \<le> expOf (n - 1) (x / 2) \<and> 2 ^ nat (expOf (n - 1) (x / 2)) \<le> x / 2"
        using "1.IH"(2) by simp
      from True "1.prems" n have e: "expOf n x = expOf (n - 1) (x / 2) + 1"
        by (subst expOf.simps) simp
      from ih have "nat (expOf (n - 1) (x / 2) + 1) = Suc (nat (expOf (n - 1) (x / 2)))"
        by (simp add: nat_add_distrib)
      with ih show ?thesis by (simp add: e)
    next
      case False
      with "1.prems" n have "expOf n x = 0"
        by (subst expOf.simps) simp
      with "1.prems" show ?thesis by simp
    qed
  qed
qed

lemma pow2_pos: "0 < pow2 e"
  by (simp add: pow2_def)

lemma pow2_shift: "0 \<le> e \<Longrightarrow> pow2 (e - 52) * 2 ^ 52 = 2 ^ nat e"
proof (cases "52 \<le> e")
  case True
  then have "nat e = nat (e - 52) + 52" by simp
  then have "(2::real) ^ nat e = 2 ^ nat (e - 52) * 2 ^ 52"
    by (simp only: power_add)
  with True show ?thesis by (simp add: pow2_def)
next
  case False
  assume "0 \<le> e"
  with False have "52 = nat (52 - e) + nat e" by simp
  then have eq: "(2::real) ^ 52 = 2 ^ nat (52 - e) * 2 ^ nat e"
    by (simp only: power_add [symmetric])
  from False have p: "pow2 (e - 52) = 1 / 2 ^ nat (52 - e)"
    by (simp add: pow2_def)
  have "pow2 (e - 52) * 2 ^ 52 = 1 / 2 ^ nat (52 - e) * (2 ^ nat (52 - e) * 2 ^ nat e)"
    by (simp only: p eq)
  also have "\<dots> = 2 ^ nat e"
    by simp
  finally show ?thesis .
qed

lemma roundHalfEven_ge_floor: "\<lfloor>x\<rfloor> \<le> roundHalfEven x"
  by (simp add: roundHalfEven_def)

lemma roundDouble_ge_1:
  assumes x: "1 \<le> x"
  shows "1 \<le> roundDouble x"
proof -
  let ?e0 = "expOf 1100 x"
  let ?u = "pow2 (?e0 - 52)"
  from expOf_ge_1 [OF x, of 1100] have e0: "0 \<le> ?e0" and le: "2 ^ nat ?e0 \<le> x"
    by simp_all
  from e0 have m: "max ?e0 (- 1022) = ?e0" by simp
  have u: "0 < ?u" by (rule pow2_pos)
  from pow2_shift [OF e0] have sh: "?u * 2 ^ 52 = 2 ^ nat ?e0" .
  with le have "?u * 2 ^ 52 \<le> x" by simp
  with u have "2 ^ 52 \<le> x / ?u"
    by (simp add: pos_le_divide_eq mult.commute)
  then have "(2::int) ^ 52 \<le> \<lfloor>x / ?u\<rfloor>"
    by (simp add: le_floor_iff)
  with roundHalfEven_ge_floor [of "x / ?u"] have "(2::int) ^ 52 \<le> roundHalfEven (x / ?u)"
    by linarith
  then have "(2::real) ^ 52 \<le> of_int (roundHalfEven (x / ?u))"
    by (metis of_int_le_iff of_int_numeral of_int_power)
  with u have "2 ^ 52 * ?u \<le> of_int (roundHalfEven (x / ?u)) * ?u"
    by (simp add: mult_right_mono)
  with sh have "2 ^ nat ?e0 \<le> of_int (roundHalfEven (x / ?u)) * ?u"
    by (simp add: mult.commute)
  moreover have "(1::real) \<le> 2 ^ nat ?e0" by simp
  moreover from x m have "roundDouble x = of_int (roundHalfEven (x / ?u)) * ?u"
    by (simp add: roundDouble_def Let_def)
  ultimately show ?thesis by linarith
qed

lemma addProgress_0_ge: "90 \<le> delta \<Longrightarrow> 1 \<le> addProgress 0 delta 90"
proof -
  assume "90 \<le> delta"
  then have "1 \<le> delta / 90" by simp
  then have "1 \<le> roundDouble (delta / 90)" by (rule roundDouble_ge_1)
  then have "1 \<le> roundDouble (roundDouble (delta / 90))" by (rule roundDouble_ge_1)
  then show ?thesis by (simp add: addProgress_def)
qed

lemma replicate_pos: "0 < n \<Longrightarrow> replicate n x = x # replicate (n - 1) x"
  by (cases n) simp_all

lemma roundDouble_1_90: "roundDouble (1 / 90) = 6405119470038039 / 576460752303423488"
  by (simp add: roundDouble_def expOf.simps roundHalfEven_def pow2_def)

lemma chargeRun_append:
  "chargeRun c (xs @ ys) = (case chargeRun c xs of None \<Rightarrow> None | Some c' \<Rightarrow> chargeRun c' ys)"
  by (induction xs arbitrary: c) (simp_all add: Let_def)

lemma chargeRun_30_a:
  "chargeRun 0 (replicate 30 1) = Some (6004799503160661 / 18014398509481984)"
  by (simp add: replicate_pos addProgress_def roundDouble_1_90 Let_def roundDouble_def
      expOf.simps roundHalfEven_def pow2_def)

lemma chargeRun_30_b:
  "chargeRun (6004799503160661 / 18014398509481984) (replicate 30 1)
    = Some (3002399751580329 / 4503599627370496)"
  by (simp add: replicate_pos addProgress_def roundDouble_1_90 Let_def roundDouble_def
      expOf.simps roundHalfEven_def pow2_def)

lemma chargeRun_30_c:
  "chargeRun (3002399751580329 / 4503599627370496) (replicate 30 1)
    = Some (4503599627370489 / 4503599627370496)"
  by (simp add: replicate_pos addProgress_def roundDouble_1_90 Let_def roundDouble_def
      expOf.simps roundHalfEven_def pow2_def)

lemma chargeRun_90: "chargeRun 0 (replicate 90 1) = Some (4503599627370489 / 4503599627370496)"
proof -
  have "replicate 90 (1::real) = replicate 30 1 @ replicate 30 1 @ replicate 30 1"
    by (simp add: replicate_add [symmetric])
  then show ?thesis
    by (simp only: chargeRun_append chargeRun_30_a chargeRun_30_b chargeRun_30_c option.case)
qed

text \<open>
  Claim C4, as stated, promises the releasing phase as soon as the deltas of the frames
  after the tap add up to 90. The code adds the rounded quotients \<open>delta / 90\<close> one by
  one, rounding each sum, and compares the result with 1. For 90 frames of delta 1 (the
  nominal frame, deltas adding up to exactly 90) the progress it has after the last
  frame is \<open>4503599627370489 / 4503599627370496\<close>, which is 0.9999999999999984: below 1. The phase is
  still charging and no explosion particle has been made.
\<close>

theorem C4_ninety_unit_frames_still_charging:
  "sum_list (map snd (replicate 90 (\<lambda>k::nat. 0::real, 1::real))) = 90
   \<and> phase (run (Tap (\<lambda>k. 0) # frames (replicate 90 (\<lambda>k. 0, 1))) (initState 800 600))
       = Charging
   \<and> chargeProgress (run (Tap (\<lambda>k. 0) # frames (replicate 90 (\<lambda>k. 0, 1))) (initState 800 600))
       = 4503599627370489 / 4503599627370496
   \<and> particles (run (Tap (\<lambda>k. 0) # frames (replicate 90 (\<lambda>k. 0, 1))) (initState 800 600))
       = []"
proof -
  let ?t = "handleTap (\<lambda>k. 0) (initState 800 600)"
  have t: "phase ?t = Charging" "chargeProgress ?t = 0" "particles ?t = []"
    by (simp_all add: phase_handleTap chargeProgress_handleTap particles_handleTap_idle
        initState_proj)
  have "chargeRun (chargeProgress ?t) (map snd (replicate 90 (\<lambda>k::nat. 0::real, 1::real)))
      = Some (4503599627370489 / 4503599627370496)"
    by (simp only: t map_replicate snd_conv chargeRun_90)
  from charging_run [OF t(1) this] t(3)
  have r: "phase (run (frames (replicate 90 (\<lambda>k. 0, 1))) ?t) = Charging"
    "chargeProgress (run (frames (replicate 90 (\<lambda>k. 0, 1))) ?t) = 4503599627370489 / 4503599627370496"
    "particles (run (frames (replicate 90 (\<lambda>k. 0, 1))) ?t) = []"
    by simp_all
  have s: "sum_list (map snd (replicate 90 (\<lambda>k::nat. 0::real, 1::real))) = 90"
    by (simp add: sum_list_replicate)
  from r s show ?thesis
    by simp
qed

text \<open>
  Claim C4, amended. Start in idle; tap; then run frames that each leave the progress
  (accumulated as the code does, \<^verbatim>\<open>chargeProgress += delta / 90\<close> in doubles) below 1,
  and then a frame that brings it to 1 or more. The phase is then releasing, and the list
  of explosion particles is the list from before the tap followed by exactly 150 new
  particles. When the random draws of the last frame are in \<open>[0, 1)\<close>, the colour of
  each new particle is an element of the palette of the explosion. A single frame with a
  delta of 90 or more, right after the tap, is such a frame.
\<close>

theorem C4_charge_then_explode:
  assumes idle: "phase s = Idle"
    and before: "chargeRun 0 (map snd fs) = Some c"
    and reach: "1 \<le> addProgress c delta 90"
    and rnd: "unitInterval rnd"
  shows "phase (run (Tap rnd0 # frames fs @ [Tick rnd delta]) s) = Releasing
    \<and> (\<exists>new. particles (run (Tap rnd0 # frames fs @ [Tick rnd delta]) s) = particles s @ new
          \<and> length new = 150
          \<and> (\<forall>p \<in> set new. p_color p \<in> Some ` set explosionColors))
    \<and> (90 \<le> delta \<longrightarrow> phase (run [Tap rnd0, Tick rnd delta] s) = Releasing)"
proof -
  define t where "t = handleTap rnd0 s"
  from idle have t: "phase t = Charging" "chargeProgress t = 0" "particles t = particles s"
    by (simp_all add: t_def phase_handleTap chargeProgress_handleTap particles_handleTap_idle)
  from before have "chargeRun (chargeProgress t) (map snd fs) = Some c"
    by (simp only: t)
  from charging_run [OF t(1) this]
  have b: "phase (run (frames fs) t) = Charging"
    "chargeProgress (run (frames fs) t) = c"
    "particles (run (frames fs) t) = particles s"
    by (simp_all add: t)
  have run: "run (Tap rnd0 # frames fs @ [Tick rnd delta]) s
      = tickCharging rnd delta (run (frames fs) t)"
    using b(1) by (simp add: run_append ticker_def flip: t_def)
  from reach have ge: "1 \<le> addProgress (chargeProgress (run (frames fs) t)) delta 90"
    by (simp only: b)
  obtain k where k: "particles (tickCharging rnd delta (run (frames fs) t)) =
      explosionLoop rnd k (getCenterX (run (frames fs) t)) (getCenterY (run (frames fs) t)) 150
        (particles s)"
    using particles_tickCharging [of rnd delta "run (frames fs) t"] ge b by auto
  let ?new = "explosionLoop rnd k (getCenterX (run (frames fs) t))
      (getCenterY (run (frames fs) t)) 150 []"
  from rnd have col: "\<forall>p \<in> set ?new. p_color p \<in> Some ` set explosionColors"
    by (rule explosionLoop_colors)
  have app: "particles (run (Tap rnd0 # frames fs @ [Tick rnd delta]) s) = particles s @ ?new"
    unfolding run k by (rule explosionLoop_append)
  have len: "length ?new = 150"
    by (simp add: length_explosionLoop)
  have ph: "phase (run (Tap rnd0 # frames fs @ [Tick rnd delta]) s) = Releasing"
    unfolding run using ge by (simp add: phase_tickCharging)
  have one: "90 \<le> delta \<longrightarrow> phase (run [Tap rnd0, Tick rnd delta] s) = Releasing"
  proof
    assume "90 \<le> delta"
    then have "1 \<le> addProgress 0 delta 90" by (rule addProgress_0_ge)
    with t show "phase (run [Tap rnd0, Tick rnd delta] s) = Releasing"
      by (simp add: ticker_def phase_tickCharging flip: t_def)
  qed
  from app len col have "\<exists>new. particles (run (Tap rnd0 # frames fs @ [Tick rnd delta]) s)
      = particles s @ new \<and> length new = 150
      \<and> (\<forall>p \<in> set new. p_color p \<in> Some ` set explosionColors)"
    by blast
  with ph one show ?thesis by (intro conjI)
qed

text \<open>
  Two frames of 45 ticks after the tap (the quotients are \<open>1 / 2\<close>, the sums exact), and
  one frame of 90 ticks.
\<close>

theorem C4_charge_then_explode_witness:
  "phase (initState 800 600) = Idle
   \<and> chargeRun 0 (map snd [(\<lambda>k::nat. 0::real, 45::real)]) = Some (1 / 2)
   \<and> addProgress (1 / 2) 45 90 = 1
   \<and> unitInterval (\<lambda>k. 0)
   \<and> phase (run (Tap (\<lambda>k. 0) # frames [(\<lambda>k. 0, 45)] @ [Tick (\<lambda>k. 0) 45]) (initState 800 600))
       = Releasing
   \<and> length (particles
        (run (Tap (\<lambda>k. 0) # frames [(\<lambda>k. 0, 45)] @ [Tick (\<lambda>k. 0) 45]) (initState 800 600)))
       = 150
   \<and> phase (run [Tap (\<lambda>k. 0), Tick (\<lambda>k. 0) 90] (initState 800 600)) = Releasing"
proof -
  have half: "roundDouble (1 / 2) = 1 / 2"
    by (simp add: roundDouble_def expOf.simps roundHalfEven_def pow2_def)
  have h1: "phase (initState 800 600) = Idle"
    by (simp add: initState_proj)
  have h2: "chargeRun 0 (map snd [(\<lambda>k::nat. 0::real, 45::real)]) = Some (1 / 2)"
    by (simp add: addProgress_def half)
  have h3: "addProgress (1 / 2) 45 90 = 1"
    by (simp add: addProgress_def half roundDouble_1)
  then have h3': "1 \<le> addProgress (1 / 2) 45 90"
    by simp
  have h4: "unitInterval (\<lambda>k. 0)"
    by (simp add: unitInterval_def)
  note t = C4_charge_then_explode [OF h1 h2 h3' h4, of "\<lambda>k. 0"]
  from t have p: "phase (run (Tap (\<lambda>k. 0) # frames [(\<lambda>k. 0, 45)] @ [Tick (\<lambda>k. 0) 45])
      (initState 800 600)) = Releasing"
    by blast
  from t have n: "length (particles
      (run (Tap (\<lambda>k. 0) # frames [(\<lambda>k. 0, 45)] @ [Tick (\<lambda>k. 0) 45]) (initState 800 600)))
      = 150"
    by (auto simp add: initState_proj)
  have g1: "chargeRun 0 (map snd ([] :: ((nat \<Rightarrow> real) \<times> real) list)) = Some 0"
    by simp
  have g2: "1 \<le> addProgress 0 90 90"
    by (simp add: addProgress_0_full)
  from C4_charge_then_explode [OF h1 g1 g2 h4, of "\<lambda>k. 0"]
  have o: "phase (run [Tap (\<lambda>k. 0), Tick (\<lambda>k. 0) 90] (initState 800 600)) = Releasing"
    by simp
  show ?thesis
    by (rule conjI [OF h1 conjI [OF h2 conjI [OF h3 conjI [OF h4 conjI [OF p conjI [OF n o]]]]]])
qed

subsection \<open>ConcentrationLine\<close>










subsection \<open>Energy particles near the centre\<close>

lemma fst_update: "fst (update delta p) = (p_life (snd (update delta p)) > 0)"
  by (simp add: update_def Let_def)

lemma energyFilter_eq:
  "energyFilter cx cy delta p =
    (\<not> hypot (p_x (snd (update delta p)) - cx) (p_y (snd (update delta p)) - cy) < 50
       \<and> p_life (snd (update delta p)) > 0,
     snd (update delta p))"
  using fst_update [of delta p] by (cases "update delta p") (simp add: energyFilter_def)

lemma filterMut_energyFilter:
  "filterMut (energyFilter cx cy delta) ps =
    filter (\<lambda>q. \<not> hypot (p_x q - cx) (p_y q - cy) < 50 \<and> p_life q > 0)
      (map (\<lambda>p. snd (update delta p)) ps)"
  by (induction ps) (simp_all add: energyFilter_eq)

lemma addEnergyParticle_chargeProgress:
  "energyParticles (addEnergyParticle rnd k (s\<lparr>chargeProgress := c\<rparr>))
    = energyParticles (addEnergyParticle rnd k s)"
  by (simp add: addEnergyParticle_def Let_def getCenterX_def getCenterY_def)

lemma energyParticles_addConcentrationLine:
  "energyParticles (addConcentrationLine rnd k s) = energyParticles s"
  by (simp add: addConcentrationLine_def)

lemma energyParticles_tickCharging:
  "energyParticles (tickCharging rnd delta s) =
    (if addProgress (chargeProgress s) delta 90 \<ge> 1 then []
     else filter (\<lambda>q. \<not> centerDist s q < 50 \<and> p_life q > 0)
            (map (\<lambda>p. snd (update delta p))
               (energyParticles (if rnd 0 < 0.3 then addEnergyParticle rnd 1 s else s))))"
proof (cases "rnd 0 < 0.3")
  case True
  show ?thesis
  proof (cases "rnd 8 < 0.2")
    case t: True
    from True t show ?thesis
      by (simp add: tickCharging_def Let_def addEnergyParticle_keeps
          addConcentrationLine_keeps filterMut_energyFilter centerDist_def getCenterX_def
          getCenterY_def addEnergyParticle_chargeProgress)
  next
    case f: False
    from True f show ?thesis
      by (simp add: tickCharging_def Let_def addEnergyParticle_keeps
          addConcentrationLine_keeps filterMut_energyFilter centerDist_def getCenterX_def
          getCenterY_def addEnergyParticle_chargeProgress)
  qed
next
  case False
  show ?thesis
  proof (cases "rnd 1 < 0.2")
    case t: True
    from False t show ?thesis
      by (simp add: tickCharging_def Let_def addEnergyParticle_keeps
          addConcentrationLine_keeps filterMut_energyFilter centerDist_def getCenterX_def
          getCenterY_def addEnergyParticle_chargeProgress)
  next
    case f: False
    from False f show ?thesis
      by (simp add: tickCharging_def Let_def addEnergyParticle_keeps
          addConcentrationLine_keeps filterMut_energyFilter centerDist_def getCenterX_def
          getCenterY_def addEnergyParticle_chargeProgress)
  qed
qed

lemma energyParticles_spawn:
  "set (energyParticles s)
     \<subseteq> set (energyParticles (if rnd 0 < 0.3 then addEnergyParticle rnd 1 s else s))"
proof -
  have "\<exists>q. energyParticles (addEnergyParticle rnd 1 s) = energyParticles s @ [q]"
    unfolding addEnergyParticle_def Let_def by simp
  then show ?thesis by auto
qed

lemma hypot_0_right: "hypot a 0 = \<bar>a\<bar>"
  by (simp add: hypot_def)

text \<open>
  Claim C7. In a frame of the charging phase every energy particle is updated and then
  kept only if its distance to the centre of the screen is not below 50 and its life is
  greater than 0 (and all are dropped when the frame ends the charge). So a particle of
  the collection whose distance after the update is below 50 is removed, whatever its
  life; one whose life after the update is not positive is removed, whatever its
  distance; and one that is at 50 or more with positive life stays, unless the charge
  ends.
\<close>

theorem C7_energy_particle_removed_near_center:
  assumes charging: "phase s = Charging"
    and p: "p \<in> set (energyParticles s)"
  shows "(centerDist s (snd (update delta p)) < 50 \<longrightarrow>
            snd (update delta p) \<notin> set (energyParticles (ticker rnd delta s)))
    \<and> (p_life (snd (update delta p)) \<le> 0 \<longrightarrow>
            snd (update delta p) \<notin> set (energyParticles (ticker rnd delta s)))
    \<and> (\<not> centerDist s (snd (update delta p)) < 50 \<and> p_life (snd (update delta p)) > 0
          \<and> addProgress (chargeProgress s) delta 90 < 1 \<longrightarrow>
            snd (update delta p) \<in> set (energyParticles (ticker rnd delta s)))
    \<and> energyParticles (ticker rnd delta s) =
        (if addProgress (chargeProgress s) delta 90 \<ge> 1 then []
         else filter (\<lambda>q. \<not> centerDist s q < 50 \<and> p_life q > 0)
                (map (\<lambda>p. snd (update delta p))
                   (energyParticles (if rnd 0 < 0.3 then addEnergyParticle rnd 1 s else s))))"
proof -
  let ?src = "energyParticles (if rnd 0 < 0.3 then addEnergyParticle rnd 1 s else s)"
  let ?q = "snd (update delta p)"
  let ?after = "energyParticles (ticker rnd delta s)"
  have eq: "?after =
      (if addProgress (chargeProgress s) delta 90 \<ge> 1 then []
       else filter (\<lambda>q. \<not> centerDist s q < 50 \<and> p_life q > 0)
              (map (\<lambda>p. snd (update delta p)) ?src))"
  proof -
    have "ticker rnd delta s = tickCharging rnd delta s"
      using charging by (simp add: ticker_def)
    then show ?thesis
      by (simp only: energyParticles_tickCharging)
  qed
  from p energyParticles_spawn [of s rnd] have "p \<in> set ?src"
    by blast
  then have mem: "?q \<in> set (map (\<lambda>p. snd (update delta p)) ?src)"
    by (simp only: set_map) (rule imageI)
  have kept: "\<forall>q \<in> set ?after. \<not> centerDist s q < 50 \<and> p_life q > 0"
    unfolding eq by simp
  from kept have c1: "centerDist s ?q < 50 \<longrightarrow> ?q \<notin> set ?after"
    by blast
  have c2: "p_life ?q \<le> 0 \<longrightarrow> ?q \<notin> set ?after"
  proof (intro impI notI)
    assume "p_life ?q \<le> 0" and "?q \<in> set ?after"
    with kept have "p_life ?q \<le> 0" and "p_life ?q > 0"
      by blast+
    then show False by simp
  qed
  have c3: "\<not> centerDist s ?q < 50 \<and> p_life ?q > 0 \<and> addProgress (chargeProgress s) delta 90 < 1
      \<longrightarrow> ?q \<in> set ?after"
  proof (intro impI)
    assume a: "\<not> centerDist s ?q < 50 \<and> p_life ?q > 0 \<and> addProgress (chargeProgress s) delta 90 < 1"
    then have "\<not> addProgress (chargeProgress s) delta 90 \<ge> 1"
      by (simp only: not_le)
    then have "?after = filter (\<lambda>q. \<not> centerDist s q < 50 \<and> p_life q > 0)
        (map (\<lambda>p. snd (update delta p)) ?src)"
      by (simp only: eq if_False)
    moreover from a mem
    have "?q \<in> set (filter (\<lambda>q. \<not> centerDist s q < 50 \<and> p_life q > 0)
        (map (\<lambda>p. snd (update delta p)) ?src))"
      by (simp only: set_filter mem_Collect_eq simp_thms)
    ultimately show "?q \<in> set ?after"
      by (simp only:)
  qed
  show ?thesis
    by (rule conjI [OF c1 conjI [OF c2 conjI [OF c3 eq]]])
qed

text \<open>
  The particle of the example is 10 units from the centre after a frame of one tick,
  with life \<open>59 / 60\<close>, and the frame removes it.
\<close>

theorem C7_energy_particle_removed_near_center_witness:
  "phase chargingExample = Charging
   \<and> nearParticle \<in> set (energyParticles chargingExample)
   \<and> p_life (snd (update 1 nearParticle)) = 59 / 60
   \<and> centerDist chargingExample (snd (update 1 nearParticle)) = 10
   \<and> snd (update 1 nearParticle) \<notin> set (energyParticles (ticker (\<lambda>k. 1 / 2) 1 chargingExample))"
proof -
  have h1: "phase chargingExample = Charging"
    by (simp add: chargingExample_def)
  have h2: "nearParticle \<in> set (energyParticles chargingExample)"
    by (simp add: chargingExample_def)
  have l: "p_life (snd (update 1 nearParticle)) = 59 / 60"
    by (simp add: update_def Let_def nearParticle_def)
  have d: "centerDist chargingExample (snd (update 1 nearParticle)) = 10"
    by (simp add: centerDist_def getCenterX_def getCenterY_def chargingExample_def initState_def
        update_def Let_def nearParticle_def hypot_0_right)
  from C7_energy_particle_removed_near_center [OF h1 h2, of 1 "\<lambda>k. 1 / 2"] d
  have r: "snd (update 1 nearParticle) \<notin> set (energyParticles (ticker (\<lambda>k. 1 / 2) 1 chargingExample))"
    by simp
  show ?thesis
    by (rule conjI [OF h1 conjI [OF h2 conjI [OF l conjI [OF d r]]]])
qed

subsection \<open>The velocity of a new energy particle\<close>

lemma energyDistance_ge:
  "unitInterval rnd \<Longrightarrow> 300 \<le> energyDistance rnd k"
  by (simp add: energyDistance_def unitInterval_def)

text \<open>
  Claim C8. When the random draws are in \<open>[0, 1)\<close>, as those of \<^verbatim>\<open>Math.random()\<close> are,
  the distance by which \<^verbatim>\<open>addEnergyParticle\<close> divides to get the direction towards the
  centre is at least 300, hence not zero, and clamping it to any epsilon between 0 and
  300 before the division changes nothing: \<^verbatim>\<open>addEnergyParticle\<close> returns the state that
  the clamped computation returns. So for every position at which a particle is spawned
  the division is the guarded one and is never a division by zero. (The source writes no
  clamp; the range of the draw does its work.)
\<close>

theorem C8_spawn_division_guarded:
  assumes rnd: "unitInterval rnd" and eps: "0 < eps" "eps \<le> 300"
  shows "300 \<le> energyDistance rnd k
    \<and> energyDistance rnd k \<noteq> 0
    \<and> max eps (energyDistance rnd k) = energyDistance rnd k
    \<and> addEnergyParticle rnd k s = addEnergyParticle_clamped eps rnd k s"
proof -
  from rnd have ge: "300 \<le> energyDistance rnd k"
    by (rule energyDistance_ge)
  then have nz: "energyDistance rnd k \<noteq> 0"
    by simp
  from ge eps(2) have mx: "max eps (energyDistance rnd k) = energyDistance rnd k"
    by simp
  have same: "addEnergyParticle rnd k s = addEnergyParticle_clamped eps rnd k s"
    unfolding addEnergyParticle_def addEnergyParticle_clamped_def Let_def
    by (simp only: mx)
  show ?thesis
    by (rule conjI [OF ge conjI [OF nz conjI [OF mx same]]])
qed

text \<open>Every draw 0, and one millionth for epsilon: the distance is 300.\<close>

theorem C8_spawn_division_guarded_witness:
  "unitInterval (\<lambda>k. 0) \<and> (0::real) < 1 / 1000000 \<and> (1::real) / 1000000 \<le> 300
   \<and> energyDistance (\<lambda>k. 0) 0 = 300
   \<and> addEnergyParticle (\<lambda>k. 0) 0 (initState 800 600)
       = addEnergyParticle_clamped (1 / 1000000) (\<lambda>k. 0) 0 (initState 800 600)"
proof -
  have h1: "unitInterval (\<lambda>k. 0)"
    by (simp add: unitInterval_def)
  have h2: "(0::real) < 1 / 1000000" by simp
  have h3: "(1::real) / 1000000 \<le> 300" by simp
  have d: "energyDistance (\<lambda>k. 0) 0 = 300"
    by (simp add: energyDistance_def)
  from C8_spawn_division_guarded [OF h1 h2 h3, of 0 "initState 800 600"]
  have e: "addEnergyParticle (\<lambda>k. 0) 0 (initState 800 600)
      = addEnergyParticle_clamped (1 / 1000000) (\<lambda>k. 0) 0 (initState 800 600)"
    by blast
  show ?thesis
    by (rule conjI [OF h1 conjI [OF h2 conjI [OF h3 conjI [OF d e]]]])
qed

end
